theory Spec2Isabelle
  imports Complex_Main
begin

section \<open>JavaScript values\<close>

text \<open>
  The SDK is TypeScript; its checks compare numbers, inspect strings and convert values
  with \<^verbatim>\<open>BigInt(...)\<close>. A JavaScript number is an IEEE double: every finite double is
  a rational, so the finite numbers are modelled by \<open>rat\<close> (a superset of the doubles),
  next to the three special values. Every comparison of the sources is against an
  integer literal and is exact on doubles, so a statement proved for all rationals holds
  for all doubles.
\<close>

datatype jsnum = Fin rat | NaN | PosInf | NegInf

text \<open>The relational operators \<^verbatim>\<open><\<close>, \<^verbatim>\<open>>\<close>, \<^verbatim>\<open><=\<close>, \<^verbatim>\<open>>=\<close> on numbers:
  any comparison with NaN is false.\<close>

fun num_lt :: "jsnum \<Rightarrow> jsnum \<Rightarrow> bool" where
  "num_lt (Fin a) (Fin b) = (a < b)"
| "num_lt NaN _ = False"
| "num_lt _ NaN = False"
| "num_lt NegInf NegInf = False"
| "num_lt NegInf _ = True"
| "num_lt PosInf _ = False"
| "num_lt (Fin a) PosInf = True"
| "num_lt (Fin a) NegInf = False"

fun num_le :: "jsnum \<Rightarrow> jsnum \<Rightarrow> bool" where
  "num_le (Fin a) (Fin b) = (a \<le> b)"
| "num_le NaN _ = False"
| "num_le _ NaN = False"
| "num_le NegInf _ = True"
| "num_le _ PosInf = True"
| "num_le PosInf _ = False"
| "num_le (Fin a) NegInf = False"

definition num_gt :: "jsnum \<Rightarrow> jsnum \<Rightarrow> bool" where
  "num_gt a b = num_lt b a"

definition num_ge :: "jsnum \<Rightarrow> jsnum \<Rightarrow> bool" where
  "num_ge a b = num_le b a"

text \<open>The runtime values the SDK's functions receive. Strings are ASCII character lists.\<close>

datatype jsvalue =
    JBool bool
  | JNumber jsnum
  | JBigInt int
  | JString string
  | JNull
  | JUndefined

text \<open>Thrown errors. \<open>Error m\<close> is \<^verbatim>\<open>new Error(m)\<close>; the other three are thrown by
  built-ins, with the message the engine or the environment gives them.\<close>

datatype js_error = Error string | TypeError string | RangeError string | SyntaxError string

text \<open>A function that may throw returns \<open>js_error + 'a\<close>: \<open>Inl e\<close> is "throws e" (for
  an async function: the promise rejects with e), \<open>Inr v\<close> is "returns v" (resolves).\<close>

definition throws :: "js_error + 'a \<Rightarrow> bool" where
  "throws r = isl r"

definition returns :: "js_error + 'a \<Rightarrow> bool" where
  "returns r = (\<not> isl r)"

text \<open>\<^verbatim>\<open>`${error}`\<close>: the error's name, a colon and its message.\<close>

fun error_text :: "js_error \<Rightarrow> string" where
  "error_text (Error m) = ''Error: '' @ m"
| "error_text (TypeError m) = ''TypeError: '' @ m"
| "error_text (RangeError m) = ''RangeError: '' @ m"
| "error_text (SyntaxError m) = ''SyntaxError: '' @ m"

subsection \<open>Decimal text of integers\<close>

definition digit_char :: "nat \<Rightarrow> char" where
  "digit_char d = ''0123456789'' ! d"

fun show_nat :: "nat \<Rightarrow> string" where
  "show_nat n = (if n < 10 then [digit_char n] else show_nat (n div 10) @ [digit_char (n mod 10)])"

declare show_nat.simps [simp del]

text \<open>\<^verbatim>\<open>b.toString()\<close> and \<^verbatim>\<open>`${b}`\<close> of a bigint.\<close>

definition show_int :: "int \<Rightarrow> string" where
  "show_int i = (if i < 0 then CHR ''-'' # show_nat (nat (- i)) else show_nat (nat i))"

subsection \<open>The BigInt conversion\<close>

text \<open>
  \<^verbatim>\<open>BigInt(s)\<close> of a string: white space is trimmed; the empty text is 0; otherwise a
  decimal literal with an optional sign, or an unsigned literal with prefix 0x, 0o or 0b;
  anything else is a SyntaxError.
\<close>

definition is_ws :: "char \<Rightarrow> bool" where
  "is_ws c = (c \<in> set [char_of (9::nat), char_of (10::nat), char_of (11::nat),
                       char_of (12::nat), char_of (13::nat), char_of (32::nat)])"

definition trim :: "string \<Rightarrow> string" where
  "trim s = rev (dropWhile is_ws (rev (dropWhile is_ws s)))"

definition digit_value :: "char \<Rightarrow> nat option" where
  "digit_value c =
     (let n = (of_char c :: nat) in
      if 48 \<le> n \<and> n \<le> 57 then Some (n - 48)
      else if 97 \<le> n \<and> n \<le> 102 then Some (n - 87)
      else if 65 \<le> n \<and> n \<le> 70 then Some (n - 55)
      else None)"

fun parse_digits :: "nat \<Rightarrow> nat \<Rightarrow> string \<Rightarrow> nat option" where
  "parse_digits base acc [] = Some acc"
| "parse_digits base acc (c # cs) =
     (case digit_value c of
        None \<Rightarrow> None
      | Some d \<Rightarrow> if d < base then parse_digits base (acc * base + d) cs else None)"

definition parse_literal :: "nat \<Rightarrow> string \<Rightarrow> nat option" where
  "parse_literal base s = (if s = [] then None else parse_digits base 0 s)"

definition StringToBigInt :: "string \<Rightarrow> int option" where
  "StringToBigInt s =
     (let t = trim s in
      if t = [] then Some 0
      else if hd t = CHR ''+'' then map_option int (parse_literal 10 (tl t))
      else if hd t = CHR ''-'' then map_option (\<lambda>n. - int n) (parse_literal 10 (tl t))
      else if take 2 t \<in> set [''0x'', ''0X''] then map_option int (parse_literal 16 (drop 2 t))
      else if take 2 t \<in> set [''0o'', ''0O''] then map_option int (parse_literal 8 (drop 2 t))
      else if take 2 t \<in> set [''0b'', ''0B''] then map_option int (parse_literal 2 (drop 2 t))
      else map_option int (parse_literal 10 t))"

text \<open>\<^verbatim>\<open>BigInt(v)\<close>: a number converts only when it is an integer (RangeError otherwise),
  a boolean is 0 or 1, null and undefined are TypeErrors.\<close>

fun BigInt :: "jsvalue \<Rightarrow> js_error + int" where
  "BigInt (JBigInt i) = Inr i"
| "BigInt (JBool b) = Inr (if b then 1 else 0)"
| "BigInt (JNumber (Fin q)) =
     (if of_int \<lfloor>q\<rfloor> = q then Inr \<lfloor>q\<rfloor> else Inl (RangeError ''not an integer''))"
| "BigInt (JNumber _) = Inl (RangeError ''not an integer'')"
| "BigInt (JString s) =
     (case StringToBigInt s of
        Some i \<Rightarrow> Inr i
      | None \<Rightarrow> Inl (SyntaxError ''Cannot convert to a BigInt''))"
| "BigInt JNull = Inl (TypeError ''Cannot convert null to a BigInt'')"
| "BigInt JUndefined = Inl (TypeError ''Cannot convert undefined to a BigInt'')"

section \<open>The client session (core/client.ts)\<close>

record NetworkConfig =
  chainId :: int
  rpcUrl :: string
  gatewayUrl :: string
  aclAddress :: string

record EncryptedInput =
  data :: "nat list"
  signature :: string

text \<open>
  The cryptographic instance is the external library \<^verbatim>\<open>fhevmjs\<close>. The SDK uses it in one
  way: \<^verbatim>\<open>createEncryptedInput(acl, user)\<close> gives an input builder, one \<^verbatim>\<open>add*\<close> call puts
  a value into it, and \<^verbatim>\<open>encrypt()\<close> produces the ciphertext and its proof. The library
  is a parameter: the three operations, each of which may throw, over builders of an
  arbitrary type \<open>'b\<close>. The calls made are recorded in a trace, so that "no cryptographic
  call was made" is the empty trace.
\<close>

datatype fhe_add =
    Add8 jsnum | Add16 jsnum | Add32 jsnum | Add64 int | AddBool bool | AddAddress string

datatype crypto_call =
    CreateEncryptedInput string "string option"
  | AddCall fhe_add
  | EncryptCall

record 'b FhevmInstance =
  createEncryptedInput :: "string \<Rightarrow> string option \<Rightarrow> js_error + 'b"
  input_add :: "'b \<Rightarrow> fhe_add \<Rightarrow> js_error + 'b"
  input_encrypt :: "'b \<Rightarrow> js_error + EncryptedInput"

record 'b FhevmClient =
  instance_fhe :: "'b FhevmInstance"
  network :: NetworkConfig
  address :: "string option"

type_synonym 'a crypto_run = "crypto_call list \<times> (js_error + 'a)"

section \<open>Encryption (core/encryption.ts)\<close>

text \<open>The common tail of the six functions: create the input, add the value, encrypt.
  An operation of the library that throws ends the function with that error.\<close>

definition encrypt_with :: "'b FhevmClient \<Rightarrow> fhe_add \<Rightarrow> EncryptedInput crypto_run" where
  "encrypt_with client a =
     (let acl = aclAddress (network client); user = address client
      in case createEncryptedInput (instance_fhe client) acl user of
           Inl e \<Rightarrow> ([CreateEncryptedInput acl user], Inl e)
         | Inr input \<Rightarrow>
             (case input_add (instance_fhe client) input a of
                Inl e \<Rightarrow> ([CreateEncryptedInput acl user, AddCall a], Inl e)
              | Inr input' \<Rightarrow>
                  ([CreateEncryptedInput acl user, AddCall a, EncryptCall],
                   input_encrypt (instance_fhe client) input')))"

definition encryptUint8 :: "'b FhevmClient \<Rightarrow> jsnum \<Rightarrow> EncryptedInput crypto_run" where
  "encryptUint8 client v =
     (if num_lt v (Fin 0) \<or> num_gt v (Fin 255)
      then ([], Inl (Error ''Value must be between 0 and 255 for uint8''))
      else encrypt_with client (Add8 v))"

definition encryptUint16 :: "'b FhevmClient \<Rightarrow> jsnum \<Rightarrow> EncryptedInput crypto_run" where
  "encryptUint16 client v =
     (if num_lt v (Fin 0) \<or> num_gt v (Fin 65535)
      then ([], Inl (Error ''Value must be between 0 and 65535 for uint16''))
      else encrypt_with client (Add16 v))"

definition encryptUint32 :: "'b FhevmClient \<Rightarrow> jsnum \<Rightarrow> EncryptedInput crypto_run" where
  "encryptUint32 client v =
     (if num_lt v (Fin 0) \<or> num_gt v (Fin 4294967295)
      then ([], Inl (Error ''Value must be between 0 and 4294967295 for uint32''))
      else encrypt_with client (Add32 v))"

definition encryptUint64 :: "'b FhevmClient \<Rightarrow> int \<Rightarrow> EncryptedInput crypto_run" where
  "encryptUint64 client v =
     (if v < 0 \<or> v > 18446744073709551615
      then ([], Inl (Error ''Value must be between 0 and 2^64-1 for uint64''))
      else encrypt_with client (Add64 v))"

definition encryptBool :: "'b FhevmClient \<Rightarrow> bool \<Rightarrow> EncryptedInput crypto_run" where
  "encryptBool client v = encrypt_with client (AddBool v)"

definition startsWith :: "string \<Rightarrow> string \<Rightarrow> bool" where
  "startsWith s p = (take (length p) s = p)"

definition encryptAddress :: "'b FhevmClient \<Rightarrow> string \<Rightarrow> EncryptedInput crypto_run" where
  "encryptAddress client a =
     (if \<not> startsWith a ''0x'' \<or> length a \<noteq> 42
      then ([], Inl (Error ''Invalid Ethereum address format''))
      else encrypt_with client (AddAddress a))"

text \<open>\<^verbatim>\<open>typeof v\<close>, for the last error message of \<^verbatim>\<open>encrypt\<close>.\<close>

fun typeof :: "jsvalue \<Rightarrow> string" where
  "typeof (JBool _) = ''boolean''"
| "typeof (JNumber _) = ''number''"
| "typeof (JBigInt _) = ''bigint''"
| "typeof (JString _) = ''string''"
| "typeof JNull = ''object''"
| "typeof JUndefined = ''undefined''"

text \<open>Automatic type detection: the branches in the source's order.\<close>

fun encrypt :: "'b FhevmClient \<Rightarrow> jsvalue \<Rightarrow> EncryptedInput crypto_run" where
  "encrypt client (JBool b) = encryptBool client b"
| "encrypt client (JString s) =
     (if startsWith s ''0x'' then encryptAddress client s
      else ([], Inl (Error (''Unsupported value type for encryption: '' @ typeof (JString s)))))"
| "encrypt client (JBigInt i) = encryptUint64 client i"
| "encrypt client (JNumber v) =
     (if num_ge v (Fin 0) \<and> num_le v (Fin 255) then encryptUint8 client v
      else if num_ge v (Fin 0) \<and> num_le v (Fin 65535) then encryptUint16 client v
      else if num_ge v (Fin 0) \<and> num_le v (Fin 4294967295) then encryptUint32 client v
      else ([], Inl (Error ''Number value out of range for uint32, use bigint for uint64'')))"
| "encrypt client v =
     ([], Inl (Error (''Unsupported value type for encryption: '' @ typeof v)))"

section \<open>Decryption (core/decryption.ts)\<close>

text \<open>
  The gateway is reached through \<^verbatim>\<open>fetch\<close>. The transport is a parameter: a function
  from the request to what the call does: the promise rejects (no connection), or a
  response arrives with its \<^verbatim>\<open>ok\<close> flag, its status text and what \<^verbatim>\<open>response.json()\<close>
  gives: it rejects (the body is not JSON), or yields null, or an object with its fields
  (a number, string or array has none of the fields read here and is the object without
  fields). Every function returns the list of requests it issued next to its result, so
  that "no network call" is the empty list.
\<close>

record http_request =
  url :: string
  http_method :: string
  headers :: "(string \<times> string) list"
  body :: "(string \<times> string) list"

datatype json_result =
    JsonThrows js_error
  | JsonNull
  | JsonObject "(string \<times> jsvalue) list"

datatype fetch_result =
    FetchRejects js_error
  | Response bool string json_result

type_synonym transport = "http_request \<Rightarrow> fetch_result"

type_synonym 'a net_run = "http_request list \<times> 'a"

text \<open>\<^verbatim>\<open>data.field\<close>: a field the object does not have is \<^verbatim>\<open>undefined\<close>.\<close>

definition get_field :: "(string \<times> jsvalue) list \<Rightarrow> string \<Rightarrow> jsvalue" where
  "get_field fs k = (case map_of fs k of None \<Rightarrow> JUndefined | Some v \<Rightarrow> v)"

text \<open>
  The permit of decryption.ts has two fields. TypeScript types are structural: a caller
  may pass an object with further fields (the \<^verbatim>\<open>expiresAt\<close> of the data model, a
  timestamp in milliseconds); the functions below accept any such object, which is what
  the record scheme \<open>'a DecryptionPermit_scheme\<close> says.
\<close>

record DecryptionPermit =
  signature :: string
  publicKey :: string

record TimedPermit = DecryptionPermit +
  expiresAt :: "int option"

definition json_post :: "string \<Rightarrow> (string \<times> string) list \<Rightarrow> http_request" where
  "json_post u b =
     \<lparr>url = u, http_method = ''POST'',
      headers = [(''Content-Type'', ''application/json'')], body = b\<rparr>"

text \<open>The body of the \<^verbatim>\<open>try\<close> block of \<^verbatim>\<open>decrypt\<close>, given the answer to its request.\<close>

fun decrypt_response :: "fetch_result \<Rightarrow> js_error + int" where
  "decrypt_response (FetchRejects e) = Inl e"
| "decrypt_response (Response ok st js) =
     (if \<not> ok then Inl (Error (''Decryption failed: '' @ st))
      else case js of
             JsonThrows e \<Rightarrow> Inl e
           | JsonNull \<Rightarrow> Inl (TypeError ''Cannot read properties of null'')
           | JsonObject fs \<Rightarrow> BigInt (get_field fs ''value''))"

definition decrypt ::
  "transport \<Rightarrow> 'b FhevmClient \<Rightarrow> int \<Rightarrow> 'a DecryptionPermit_scheme \<Rightarrow> (js_error + int) net_run" where
  "decrypt fetch client handle permit =
     (let req = json_post (gatewayUrl (network client) @ ''/decrypt'')
                  [(''handle'', show_int handle),
                   (''signature'', signature permit),
                   (''publicKey'', publicKey permit)]
      in ([req],
          case decrypt_response (fetch req) of
            Inl error \<Rightarrow> Inl (Error (''Failed to decrypt value: '' @ error_text error))
          | Inr v \<Rightarrow> Inr v))"

text \<open>
  \<^verbatim>\<open>Promise.all\<close>: resolves with all the values in the order of the promises, rejects as
  soon as one of them rejects. When several reject, the reason reported is the one of
  the promise that settles first; the transport here has no timing, and the model reports
  the first rejection in list order.
\<close>

fun promise_all :: "(js_error + 'a) list \<Rightarrow> js_error + 'a list" where
  "promise_all [] = Inr []"
| "promise_all (r # rs) =
     (case r of
        Inl e \<Rightarrow> Inl e
      | Inr v \<Rightarrow> (case promise_all rs of Inl e \<Rightarrow> Inl e | Inr vs \<Rightarrow> Inr (v # vs)))"

text \<open>\<^verbatim>\<open>handles.map\<close> starts every \<^verbatim>\<open>decrypt\<close>, each of which issues its request at
  once; the results are joined afterwards.\<close>

definition decryptBatch ::
  "transport \<Rightarrow> 'b FhevmClient \<Rightarrow> int list \<Rightarrow> 'a DecryptionPermit_scheme
     \<Rightarrow> (js_error + int list) net_run" where
  "decryptBatch fetch client handles permit =
     (let decryptionPromises = map (\<lambda>handle. decrypt fetch client handle permit) handles
      in (concat (map fst decryptionPromises), promise_all (map snd decryptionPromises)))"

fun permit_valid_response :: "fetch_result \<Rightarrow> bool" where
  "permit_valid_response (FetchRejects e) = False"
| "permit_valid_response (Response ok st js) =
     (if \<not> ok then False
      else case js of
             JsonThrows e \<Rightarrow> False
           | JsonNull \<Rightarrow> False
           | JsonObject fs \<Rightarrow> get_field fs ''valid'' = JBool True)"

text \<open>\<^verbatim>\<open>isPermitValid\<close> catches every error and answers false (the \<^verbatim>\<open>console.error\<close>
  of the catch block is not modelled).\<close>

definition isPermitValid ::
  "transport \<Rightarrow> 'b FhevmClient \<Rightarrow> 'a DecryptionPermit_scheme \<Rightarrow> bool net_run" where
  "isPermitValid fetch client permit =
     (let req = json_post (gatewayUrl (network client) @ ''/permit/validate'')
                  [(''signature'', signature permit), (''publicKey'', publicKey permit)]
      in ([req], permit_valid_response (fetch req)))"

section \<open>Validation (utils/validation.ts)\<close>

datatype FheType = FUint8 | FUint16 | FUint32 | FUint64 | FBool | FAddress

fun type_name :: "FheType \<Rightarrow> string" where
  "type_name FUint8 = ''uint8''"
| "type_name FUint16 = ''uint16''"
| "type_name FUint32 = ''uint32''"
| "type_name FUint64 = ''uint64''"
| "type_name FBool = ''bool''"
| "type_name FAddress = ''address''"

text \<open>\<^verbatim>\<open>FHE_RANGES\<close> has no entry for the address type.\<close>

fun FHE_RANGES :: "FheType \<Rightarrow> (int \<times> int) option" where
  "FHE_RANGES FUint8 = Some (0, 255)"
| "FHE_RANGES FUint16 = Some (0, 65535)"
| "FHE_RANGES FUint32 = Some (0, 4294967295)"
| "FHE_RANGES FUint64 = Some (0, 18446744073709551615)"
| "FHE_RANGES FBool = Some (0, 1)"
| "FHE_RANGES FAddress = None"

definition is_hex_char :: "char \<Rightarrow> bool" where
  "is_hex_char c =
     (let n = (of_char c :: nat) in
      (48 \<le> n \<and> n \<le> 57) \<or> (97 \<le> n \<and> n \<le> 102) \<or> (65 \<le> n \<and> n \<le> 70))"

text \<open>The regular expression \<^verbatim>\<open>/^0x[a-fA-F0-9]{40}$/\<close> of validation.ts and security.ts.\<close>

definition address_regex :: "string \<Rightarrow> bool" where
  "address_regex s = (length s = 42 \<and> take 2 s = ''0x'' \<and> list_all is_hex_char (drop 2 s))"

definition validateFheValue :: "jsvalue \<Rightarrow> FheType \<Rightarrow> js_error + unit" where
  "validateFheValue v t =
     (if t = FBool then
        (if typeof v \<noteq> ''boolean'' \<and> v \<noteq> JNumber (Fin 0) \<and> v \<noteq> JNumber (Fin 1)
         then Inl (Error ''Boolean value must be true, false, 0, or 1'')
         else Inr ())
      else if t = FAddress then
        (case v of
           JString s \<Rightarrow>
             if \<not> address_regex s then Inl (Error ''Invalid Ethereum address format'')
             else Inr ()
         | _ \<Rightarrow> Inl (Error ''Address value must be a string''))
      else
        (case BigInt v of
           Inl e \<Rightarrow> Inl e
         | Inr bigValue \<Rightarrow>
             (case FHE_RANGES t of
                None \<Rightarrow> Inl (Error (''Unknown FHE type: '' @ type_name t))
              | Some (rmin, rmax) \<Rightarrow>
                  if bigValue < rmin \<or> bigValue > rmax
                  then Inl (Error (''Value '' @ show_int bigValue @ '' out of range for ''
                                   @ type_name t @ '' ('' @ show_int rmin @ '' - ''
                                   @ show_int rmax @ '')''))
                  else Inr ())))"

definition inferFheType :: "jsvalue \<Rightarrow> js_error + FheType" where
  "inferFheType v =
     (case v of
        JBool b \<Rightarrow> Inr FBool
      | JString s \<Rightarrow>
          if address_regex s then Inr FAddress
          else Inl (Error ''String value must be a valid Ethereum address'')
      | _ \<Rightarrow>
          (case BigInt v of
             Inl e \<Rightarrow> Inl e
           | Inr bigValue \<Rightarrow>
               if bigValue < 0 then Inl (Error ''Negative values are not supported'')
               else if bigValue \<le> 255 then Inr FUint8
               else if bigValue \<le> 65535 then Inr FUint16
               else if bigValue \<le> 4294967295 then Inr FUint32
               else if bigValue \<le> 18446744073709551615 then Inr FUint64
               else Inl (Error ''Value too large for supported FHE types'')))"

text \<open>
  \<^verbatim>\<open>validateDecryptionPermit(permit: any)\<close>: the argument is either falsy (null,
  undefined) or a value whose \<^verbatim>\<open>signature\<close> and \<^verbatim>\<open>publicKey\<close> properties are read; a
  property that is missing reads as \<^verbatim>\<open>undefined\<close>.
\<close>

datatype permit_any = NoPermit | PermitFields jsvalue jsvalue

definition nonempty_string :: "jsvalue \<Rightarrow> bool" where
  "nonempty_string v = (case v of JString s \<Rightarrow> length s \<noteq> 0 | _ \<Rightarrow> False)"

fun validateDecryptionPermit :: "permit_any \<Rightarrow> js_error + unit" where
  "validateDecryptionPermit NoPermit = Inl (Error ''Decryption permit is required'')"
| "validateDecryptionPermit (PermitFields sig pk) =
     (if \<not> nonempty_string sig then Inl (Error ''Permit signature is required'')
      else if \<not> nonempty_string pk then Inl (Error ''Permit public key is required'')
      else Inr ())"

text \<open>A typed permit, seen as the \<^verbatim>\<open>any\<close> the validator takes.\<close>

definition permit_as_any :: "'a DecryptionPermit_scheme \<Rightarrow> permit_any" where
  "permit_as_any p = PermitFields (JString (signature p)) (JString (publicKey p))"

definition validateEncryptedHandle :: "jsvalue \<Rightarrow> js_error + int" where
  "validateEncryptedHandle handle =
     (if handle = JNull \<or> handle = JUndefined
      then Inl (Error ''Encrypted handle is required'')
      else case BigInt handle of
             Inl e \<Rightarrow> Inl (Error ''Invalid encrypted handle format'')
           | Inr i \<Rightarrow> Inr i)"

text \<open>\<^verbatim>\<open>handles.map((handle, index) => ...)\<close>: the first handle that fails throws, with
  its index.\<close>

fun validate_handles_from :: "nat \<Rightarrow> jsvalue list \<Rightarrow> js_error + int list" where
  "validate_handles_from index [] = Inr []"
| "validate_handles_from index (h # hs) =
     (case validateEncryptedHandle h of
        Inl error \<Rightarrow>
          Inl (Error (''Invalid handle at index '' @ show_nat index @ '': '' @ error_text error))
      | Inr i \<Rightarrow>
          (case validate_handles_from (Suc index) hs of
             Inl e \<Rightarrow> Inl e
           | Inr is \<Rightarrow> Inr (i # is)))"

text \<open>The argument of \<^verbatim>\<open>validateHandleBatch\<close> is \<open>None\<close> when it is not an array.\<close>

definition validateHandleBatch :: "jsvalue list option \<Rightarrow> js_error + int list" where
  "validateHandleBatch handles =
     (case handles of
        None \<Rightarrow> Inl (Error ''Handles must be an array'')
      | Some hs \<Rightarrow>
          if length hs = 0 then Inl (Error ''Handle array cannot be empty'')
          else validate_handles_from 0 hs)"

section \<open>Creating a client (core/client.ts)\<close>

text \<open>
  \<^verbatim>\<open>NETWORKS\<close> is a module-level object whose properties are \<^verbatim>\<open>NetworkConfig\<close> objects, and
  \<^verbatim>\<open>createFhevmClient\<close> works on a reference to one of them (or to the object the caller
  supplies). Objects are therefore kept in a store, addressed by references; the registry
  maps a name to the reference of its entry.
\<close>

type_synonym ref = nat

type_synonym store = "ref \<Rightarrow> NetworkConfig"

definition sepolia_ref :: ref where
  "sepolia_ref = 0"

definition localhost_ref :: ref where
  "localhost_ref = 1"

definition NETWORKS :: "string \<Rightarrow> ref option" where
  "NETWORKS name =
     (if name = ''sepolia'' then Some sepolia_ref
      else if name = ''localhost'' then Some localhost_ref
      else None)"

definition sepolia_config :: NetworkConfig where
  "sepolia_config =
     \<lparr>chainId = 11155111, rpcUrl = ''https://rpc.sepolia.org'',
      gatewayUrl = ''https://gateway.zama.ai'', aclAddress = ''0x...''\<rparr>"

definition localhost_config :: NetworkConfig where
  "localhost_config =
     \<lparr>chainId = 31337, rpcUrl = ''http://localhost:8545'',
      gatewayUrl = ''http://localhost:8080'', aclAddress = ''0x...''\<rparr>"

text \<open>The store when the module is loaded; objects of the caller live at other
  references.\<close>

definition initial_store :: "store \<Rightarrow> store" where
  "initial_store others = others(sepolia_ref := sepolia_config, localhost_ref := localhost_config)"

datatype network_choice = ByName string | Custom ref

datatype provider = BrowserProvider | JsonRpcProvider string

record FhevmClientConfig =
  cfg_network :: network_choice
  cfg_provider :: "unit option"
  cfg_privateKey :: "string option"
  cfg_gatewayUrl :: "string option"
  cfg_aclAddress :: "string option"

record FhevmInstanceConfig =
  ic_chainId :: int
  ic_publicKey :: jsvalue
  ic_gatewayUrl :: string
  ic_aclAddress :: string

text \<open>What lies outside the SDK: the library's \<^verbatim>\<open>initFhevm\<close> and \<^verbatim>\<open>createInstance\<close>, the
  wallet behind an injected provider (\<^verbatim>\<open>getSigner().getAddress()\<close>) and the transport.\<close>

record 'b externals =
  initFhevm :: "js_error + unit"
  signerAddress :: "js_error + string"
  fetch_ext :: transport
  createInstance :: "FhevmInstanceConfig \<Rightarrow> js_error + 'b FhevmInstance"

record sdk_state =
  objects :: store
  fhevmInitialized :: bool

text \<open>The client as \<^verbatim>\<open>createFhevmClient\<close> returns it: its \<^verbatim>\<open>network\<close> is the reference it
  resolved, not a copy.\<close>

record 'b FhevmClientRef =
  cr_instance :: "'b FhevmInstance"
  cr_provider :: provider
  cr_network :: ref
  cr_address :: "string option"

text \<open>An optional string is truthy when it is present and not empty.\<close>

definition truthy :: "string option \<Rightarrow> bool" where
  "truthy s = (case s of None \<Rightarrow> False | Some t \<Rightarrow> t \<noteq> [])"

definition initializeFhevm :: "'b externals \<Rightarrow> sdk_state \<Rightarrow> sdk_state \<times> (js_error + unit)" where
  "initializeFhevm ext st =
     (if fhevmInitialized st then (st, Inr ())
      else case initFhevm ext of
             Inl e \<Rightarrow> (st, Inl e)
           | Inr u \<Rightarrow> (st\<lparr>fhevmInitialized := True\<rparr>, Inr ()))"

definition fetchPublicKey :: "transport \<Rightarrow> string \<Rightarrow> js_error + jsvalue" where
  "fetchPublicKey fetch gw =
     (let req = \<lparr>url = gw @ ''/publicKey'', http_method = ''GET'', headers = [], body = []\<rparr>;
          attempt =
            (case fetch req of
               FetchRejects e \<Rightarrow> Inl e
             | Response ok st js \<Rightarrow>
                 if \<not> ok then Inl (Error (''Failed to fetch public key: '' @ st))
                 else case js of
                        JsonThrows e \<Rightarrow> Inl e
                      | JsonNull \<Rightarrow> Inl (TypeError ''Cannot read properties of null'')
                      | JsonObject fs \<Rightarrow> Inr (get_field fs ''publicKey''))
      in case attempt of
           Inl error \<Rightarrow>
             Inl (Error (''Failed to fetch public key from gateway: '' @ error_text error))
         | Inr k \<Rightarrow> Inr k)"

text \<open>The overrides are assignments to the fields of the resolved object; an override
  that is undefined or the empty string is falsy and is skipped.\<close>

definition apply_overrides :: "FhevmClientConfig \<Rightarrow> ref \<Rightarrow> store \<Rightarrow> store" where
  "apply_overrides config r s =
     (let s1 = (case cfg_gatewayUrl config of
                  None \<Rightarrow> s
                | Some g \<Rightarrow> if g \<noteq> [] then s(r := (s r)\<lparr>gatewayUrl := g\<rparr>) else s);
          s2 = (case cfg_aclAddress config of
                  None \<Rightarrow> s1
                | Some a \<Rightarrow> if a \<noteq> [] then s1(r := (s1 r)\<lparr>aclAddress := a\<rparr>) else s1)
      in s2)"

text \<open>The provider and the address, by the three branches of the source.\<close>

definition make_provider ::
  "'b externals \<Rightarrow> FhevmClientConfig \<Rightarrow> NetworkConfig \<Rightarrow> js_error + provider \<times> string option" where
  "make_provider ext config networkConfig =
     (if truthy (cfg_privateKey config) then Inr (JsonRpcProvider (rpcUrl networkConfig), None)
      else if cfg_provider config \<noteq> None then
        (case signerAddress ext of
           Inl e \<Rightarrow> Inl e
         | Inr a \<Rightarrow> Inr (BrowserProvider, Some a))
      else Inr (JsonRpcProvider (rpcUrl networkConfig), None))"

definition createFhevmClient ::
  "'b externals \<Rightarrow> FhevmClientConfig \<Rightarrow> sdk_state
     \<Rightarrow> sdk_state \<times> (js_error + 'b FhevmClientRef)" where
  "createFhevmClient ext config st0 =
     (case initializeFhevm ext st0 of
        (st, Inl e) \<Rightarrow> (st, Inl e)
      | (st, Inr u) \<Rightarrow>
          (case (case cfg_network config of ByName n \<Rightarrow> NETWORKS n | Custom r \<Rightarrow> Some r) of
             None \<Rightarrow>
               (st, Inl (Error (''Unknown network: '' @
                   (case cfg_network config of ByName n \<Rightarrow> n | Custom r \<Rightarrow> ''[object Object]''))))
           | Some r \<Rightarrow>
               (let st' = st\<lparr>objects := apply_overrides config r (objects st)\<rparr>;
                    networkConfig = objects st' r
                in case make_provider ext config networkConfig of
                     Inl e \<Rightarrow> (st', Inl e)
                   | Inr (prov, addr) \<Rightarrow>
                       (case fetchPublicKey (fetch_ext ext) (gatewayUrl networkConfig) of
                          Inl e \<Rightarrow> (st', Inl e)
                        | Inr key \<Rightarrow>
                            (case createInstance ext
                                    \<lparr>ic_chainId = chainId networkConfig, ic_publicKey = key,
                                     ic_gatewayUrl = gatewayUrl networkConfig,
                                     ic_aclAddress = aclAddress networkConfig\<rparr> of
                               Inl e \<Rightarrow> (st', Inl e)
                             | Inr inst \<Rightarrow>
                                 (st', Inr \<lparr>cr_instance = inst, cr_provider = prov,
                                            cr_network = r, cr_address = addr\<rparr>))))))"

text \<open>What a later reader of the registry sees for a name.\<close>

definition registry_entry :: "sdk_state \<Rightarrow> string \<Rightarrow> NetworkConfig option" where
  "registry_entry st name = map_option (objects st) (NETWORKS name)"

section \<open>The rate limiter (utils/security.ts)\<close>

text \<open>Times are milliseconds since the epoch, as \<^verbatim>\<open>Date.now()\<close> gives them; the clock is
  the argument \<open>now\<close> of \<open>isAllowed\<close>.\<close>

record RateLimiter =
  requests :: "int list"
  maxRequests :: int
  windowMs :: int

definition new_RateLimiter :: "int \<Rightarrow> int \<Rightarrow> RateLimiter" where
  "new_RateLimiter m w = \<lparr>requests = [], maxRequests = m, windowMs = w\<rparr>"

definition isAllowed :: "int \<Rightarrow> RateLimiter \<Rightarrow> bool \<times> RateLimiter" where
  "isAllowed now rl =
     (let kept = filter (\<lambda>time. now - time < windowMs rl) (requests rl)
      in if int (length kept) < maxRequests rl
         then (True, rl\<lparr>requests := kept @ [now]\<rparr>)
         else (False, rl\<lparr>requests := kept\<rparr>))"

definition reset :: "RateLimiter \<Rightarrow> RateLimiter" where
  "reset rl = rl\<lparr>requests := []\<rparr>"

text \<open>A sequence of calls, at the given times: the answers and the limiter afterwards.\<close>

fun isAllowed_calls :: "int list \<Rightarrow> RateLimiter \<Rightarrow> bool list \<times> RateLimiter" where
  "isAllowed_calls [] rl = ([], rl)"
| "isAllowed_calls (t # ts) rl =
     (case isAllowed t rl of
        (ok, rl') \<Rightarrow> (case isAllowed_calls ts rl' of (oks, rl'') \<Rightarrow> (ok # oks, rl'')))"

section \<open>Notions the specification uses\<close>

text \<open>The library accepts the request a client makes for the value \<open>a\<close>: none of its
  three operations throws.\<close>

definition library_accepts :: "'b FhevmClient \<Rightarrow> fhe_add \<Rightarrow> bool" where
  "library_accepts client a =
     (case createEncryptedInput (instance_fhe client) (aclAddress (network client)) (address client) of
        Inl e \<Rightarrow> False
      | Inr input \<Rightarrow>
          (case input_add (instance_fhe client) input a of
             Inl e \<Rightarrow> False
           | Inr input' \<Rightarrow> returns (input_encrypt (instance_fhe client) input')))"

text \<open>The address shape as the specification writes it, \<^verbatim>\<open>/^0x[0-9a-f]{40}$/i\<close>: with
  the flag \<^verbatim>\<open>i\<close> the prefix may be written 0X as well.\<close>

definition spec_address_pattern :: "string \<Rightarrow> bool" where
  "spec_address_pattern s =
     (length s = 42 \<and> take 2 s \<in> set [''0x'', ''0X''] \<and> list_all is_hex_char (drop 2 s))"

text \<open>"The smallest unsigned width that fits", among the widths the automatic dispatch
  of plain numbers may choose: the first of 8, 16, 32 whose maximum \<open>2 ^ w - 1\<close> is not
  below the number.\<close>

definition smallest_width :: "rat \<Rightarrow> nat option" where
  "smallest_width n = find (\<lambda>w. n \<le> 2 ^ w - 1) [8, 16, 32]"

text \<open>The \<^verbatim>\<open>add*\<close> call of the path of that width.\<close>

definition uint_path :: "nat \<Rightarrow> jsnum \<Rightarrow> fhe_add" where
  "uint_path w v = (if w = 8 then Add8 v else if w = 16 then Add16 v else Add32 v)"

section \<open>Fixtures\<close>

text \<open>A library instance that accepts every request (its builder is the list of the values
  added), a client on the local network and
  a gateway that decrypts every handle to the handle's own number, except handle 13, which
  it refuses, and that finds every permit valid.\<close>

definition demo_instance :: "fhe_add list FhevmInstance" where
  "demo_instance =
     \<lparr>createEncryptedInput = (\<lambda>acl user. Inr []),
      input_add = (\<lambda>input a. Inr (input @ [a])),
      input_encrypt = (\<lambda>input. Inr \<lparr>data = [1], EncryptedInput.signature = ''proof''\<rparr>)\<rparr>"

definition demo_client :: "fhe_add list FhevmClient" where
  "demo_client = \<lparr>instance_fhe = demo_instance, network = localhost_config, address = Some ''0xabc''\<rparr>"

definition demo_gateway :: transport where
  "demo_gateway req =
     (case map_of (body req) ''handle'' of
        None \<Rightarrow>
          Response True ''OK''
            (JsonObject [(''valid'', JBool True), (''publicKey'', JString ''0xpk'')])
      | Some h \<Rightarrow>
          if h = ''13'' then Response False ''Forbidden'' JsonNull
          else Response True ''OK'' (JsonObject [(''value'', JString h)]))"

definition demo_permit :: DecryptionPermit where
  "demo_permit = \<lparr>signature = ''0xsig'', publicKey = ''0xkey''\<rparr>"

text \<open>A permit whose two fields are empty, and one that expired at time 1000.\<close>

definition empty_permit :: DecryptionPermit where
  "empty_permit = \<lparr>signature = [], publicKey = []\<rparr>"

definition expired_permit :: TimedPermit where
  "expired_permit = \<lparr>signature = ''0xsig'', publicKey = ''0xkey'', expiresAt = Some 1000\<rparr>"

text \<open>Externals that never fail, the state of a freshly loaded module, and a
  configuration that names the registry's sepolia entry and overrides its gateway.\<close>

definition demo_externals :: "fhe_add list externals" where
  "demo_externals =
     \<lparr>initFhevm = Inr (), signerAddress = Inr ''0xabc'', fetch_ext = demo_gateway,
      createInstance = (\<lambda>cfg. Inr demo_instance)\<rparr>"

definition fresh_state :: sdk_state where
  "fresh_state = \<lparr>objects = initial_store (\<lambda>r. localhost_config), fhevmInitialized = False\<rparr>"

definition override_config :: FhevmClientConfig where
  "override_config =
     \<lparr>cfg_network = ByName ''sepolia'', cfg_provider = None, cfg_privateKey = None,
      cfg_gatewayUrl = Some ''https://gateway.example'', cfg_aclAddress = None\<rparr>"

definition plain_config :: FhevmClientConfig where
  "plain_config =
     \<lparr>cfg_network = ByName ''sepolia'', cfg_provider = None, cfg_privateKey = None,
      cfg_gatewayUrl = None, cfg_aclAddress = None\<rparr>"

section \<open>Basic facts\<close>

lemma returns_simps [simp]:
  "returns (Inl e) = False" "returns (Inr x) = True"
  "throws (Inl e) = True" "throws (Inr x) = False"
  by (simp_all add: returns_def throws_def)

lemma encrypt_with_calls:
  "fst (encrypt_with c a) \<noteq> []
   \<and> set (fst (encrypt_with c a))
       \<subseteq> {CreateEncryptedInput (aclAddress (network c)) (address c), AddCall a, EncryptCall}"
  by (auto simp: encrypt_with_def Let_def split: sum.splits)

lemma encrypt_with_returns: "returns (snd (encrypt_with c a)) = library_accepts c a"
  by (simp add: encrypt_with_def library_accepts_def Let_def split: sum.splits)

lemma encrypt_with_accepted:
  "library_accepts c a \<Longrightarrow>
   fst (encrypt_with c a) =
     [CreateEncryptedInput (aclAddress (network c)) (address c), AddCall a, EncryptCall]"
  by (auto simp: encrypt_with_def library_accepts_def Let_def split: sum.splits)

lemma demo_accepts: "library_accepts demo_client a"
  by (simp add: library_accepts_def demo_client_def demo_instance_def)

lemma demo_encrypt_with:
  "encrypt_with demo_client a =
     ([CreateEncryptedInput ''0x...'' (Some ''0xabc''), AddCall a, EncryptCall],
      Inr \<lparr>data = [1], EncryptedInput.signature = ''proof''\<rparr>)"
  by (simp add: encrypt_with_def demo_client_def demo_instance_def localhost_config_def)

section \<open>Range validation of the typed encryption functions\<close>

lemma encryptUint8_int:
  "encryptUint8 c (Fin (of_int v)) =
     (if 0 \<le> v \<and> v \<le> 255 then encrypt_with c (Add8 (Fin (of_int v)))
      else ([], Inl (Error ''Value must be between 0 and 255 for uint8'')))"
  by (auto simp: encryptUint8_def num_gt_def)

lemma encryptUint16_int:
  "encryptUint16 c (Fin (of_int v)) =
     (if 0 \<le> v \<and> v \<le> 65535 then encrypt_with c (Add16 (Fin (of_int v)))
      else ([], Inl (Error ''Value must be between 0 and 65535 for uint16'')))"
  by (auto simp: encryptUint16_def num_gt_def)

lemma encryptUint32_int:
  "encryptUint32 c (Fin (of_int v)) =
     (if 0 \<le> v \<and> v \<le> 4294967295 then encrypt_with c (Add32 (Fin (of_int v)))
      else ([], Inl (Error ''Value must be between 0 and 4294967295 for uint32'')))"
  by (auto simp: encryptUint32_def num_gt_def)

lemma encryptUint64_int:
  "encryptUint64 c v =
     (if 0 \<le> v \<and> v \<le> 2 ^ 64 - 1 then encrypt_with c (Add64 v)
      else ([], Inl (Error ''Value must be between 0 and 2^64-1 for uint64'')))"
  by (auto simp: encryptUint64_def)

text \<open>
  Claim C6. For every integer \<open>v\<close>, \<^verbatim>\<open>encryptUint8(client, v)\<close> succeeds iff
  \<open>0 \<le> v \<le> 255\<close> (and the library accepts the request); otherwise it throws its
  validation error with no call to the library made (the empty trace). The same holds for
  \<^verbatim>\<open>encryptUint16\<close> with 65535, \<^verbatim>\<open>encryptUint32\<close> with 4294967295 and \<^verbatim>\<open>encryptUint64\<close>
  with \<open>2 ^ 64 - 1\<close>. When the range check passes, the result is exactly what the library
  answers to the one request.
\<close>

theorem encryptUint_succeeds_iff_in_range:
  fixes v :: int
  shows
  "encryptUint8 c (Fin (of_int v)) =
     (if 0 \<le> v \<and> v \<le> 255 then encrypt_with c (Add8 (Fin (of_int v)))
      else ([], Inl (Error ''Value must be between 0 and 255 for uint8'')))
   \<and> encryptUint16 c (Fin (of_int v)) =
     (if 0 \<le> v \<and> v \<le> 65535 then encrypt_with c (Add16 (Fin (of_int v)))
      else ([], Inl (Error ''Value must be between 0 and 65535 for uint16'')))
   \<and> encryptUint32 c (Fin (of_int v)) =
     (if 0 \<le> v \<and> v \<le> 4294967295 then encrypt_with c (Add32 (Fin (of_int v)))
      else ([], Inl (Error ''Value must be between 0 and 4294967295 for uint32'')))
   \<and> encryptUint64 c v =
     (if 0 \<le> v \<and> v \<le> 2 ^ 64 - 1 then encrypt_with c (Add64 v)
      else ([], Inl (Error ''Value must be between 0 and 2^64-1 for uint64'')))
   \<and> (fst (encryptUint8 c (Fin (of_int v))) = [] \<longleftrightarrow> v < 0 \<or> 255 < v)
   \<and> (fst (encryptUint16 c (Fin (of_int v))) = [] \<longleftrightarrow> v < 0 \<or> 65535 < v)
   \<and> (fst (encryptUint32 c (Fin (of_int v))) = [] \<longleftrightarrow> v < 0 \<or> 4294967295 < v)
   \<and> (fst (encryptUint64 c v) = [] \<longleftrightarrow> v < 0 \<or> 2 ^ 64 - 1 < v)
   \<and> (returns (snd (encryptUint8 c (Fin (of_int v))))
        \<longleftrightarrow> 0 \<le> v \<and> v \<le> 255 \<and> library_accepts c (Add8 (Fin (of_int v))))
   \<and> (returns (snd (encryptUint16 c (Fin (of_int v))))
        \<longleftrightarrow> 0 \<le> v \<and> v \<le> 65535 \<and> library_accepts c (Add16 (Fin (of_int v))))
   \<and> (returns (snd (encryptUint32 c (Fin (of_int v))))
        \<longleftrightarrow> 0 \<le> v \<and> v \<le> 4294967295 \<and> library_accepts c (Add32 (Fin (of_int v))))
   \<and> (returns (snd (encryptUint64 c v))
        \<longleftrightarrow> 0 \<le> v \<and> v \<le> 2 ^ 64 - 1 \<and> library_accepts c (Add64 v))"
proof -
  have calls: "\<And>a. fst (encrypt_with c a) \<noteq> []"
    by (simp add: encrypt_with_calls)
  have "fst (encryptUint8 c (Fin (of_int v))) = [] \<longleftrightarrow> v < 0 \<or> 255 < v"
    using calls by (cases "0 \<le> v"; cases "v \<le> 255") (simp_all add: encryptUint8_int)
  moreover have "fst (encryptUint16 c (Fin (of_int v))) = [] \<longleftrightarrow> v < 0 \<or> 65535 < v"
    using calls by (cases "0 \<le> v"; cases "v \<le> 65535") (simp_all add: encryptUint16_int)
  moreover have "fst (encryptUint32 c (Fin (of_int v))) = [] \<longleftrightarrow> v < 0 \<or> 4294967295 < v"
    using calls by (cases "0 \<le> v"; cases "v \<le> 4294967295") (simp_all add: encryptUint32_int)
  moreover have "fst (encryptUint64 c v) = [] \<longleftrightarrow> v < 0 \<or> 2 ^ 64 - 1 < v"
    using calls by (cases "0 \<le> v"; cases "v \<le> 2 ^ 64 - 1") (simp_all add: encryptUint64_int)
  moreover have "returns (snd (encryptUint8 c (Fin (of_int v))))
        \<longleftrightarrow> 0 \<le> v \<and> v \<le> 255 \<and> library_accepts c (Add8 (Fin (of_int v)))"
    by (cases "0 \<le> v"; cases "v \<le> 255") (simp_all add: encryptUint8_int encrypt_with_returns)
  moreover have "returns (snd (encryptUint16 c (Fin (of_int v))))
        \<longleftrightarrow> 0 \<le> v \<and> v \<le> 65535 \<and> library_accepts c (Add16 (Fin (of_int v)))"
    by (cases "0 \<le> v"; cases "v \<le> 65535") (simp_all add: encryptUint16_int encrypt_with_returns)
  moreover have "returns (snd (encryptUint32 c (Fin (of_int v))))
        \<longleftrightarrow> 0 \<le> v \<and> v \<le> 4294967295 \<and> library_accepts c (Add32 (Fin (of_int v)))"
    by (cases "0 \<le> v"; cases "v \<le> 4294967295") (simp_all add: encryptUint32_int encrypt_with_returns)
  moreover have "returns (snd (encryptUint64 c v))
        \<longleftrightarrow> 0 \<le> v \<and> v \<le> 2 ^ 64 - 1 \<and> library_accepts c (Add64 v)"
    by (cases "0 \<le> v"; cases "v \<le> 2 ^ 64 - 1") (simp_all add: encryptUint64_int encrypt_with_returns)
  ultimately show ?thesis
    by (simp only: encryptUint8_int [of c v] encryptUint16_int [of c v]
        encryptUint32_int [of c v] encryptUint64_int [of c v] simp_thms)
qed

theorem encryptUint_succeeds_iff_in_range_witness:
  "returns (snd (encryptUint8 demo_client (Fin 255)))
   \<and> fst (encryptUint8 demo_client (Fin 256)) = []
   \<and> throws (snd (encryptUint8 demo_client (Fin 256)))
   \<and> returns (snd (encryptUint64 demo_client (2 ^ 64 - 1)))
   \<and> encryptUint64 demo_client (2 ^ 64) =
       ([], Inl (Error ''Value must be between 0 and 2^64-1 for uint64''))"
  using encryptUint_succeeds_iff_in_range [of demo_client 255]
    encryptUint_succeeds_iff_in_range [of demo_client 256]
    encryptUint_succeeds_iff_in_range [of demo_client "2 ^ 64 - 1"]
    encryptUint_succeeds_iff_in_range [of demo_client "2 ^ 64"]
  by (simp add: demo_accepts throws_def encrypt_with_returns)

section \<open>Automatic type detection\<close>

text \<open>
  Claim C10. \<^verbatim>\<open>encrypt(client, b)\<close> of a bigint \<open>b\<close> is \<^verbatim>\<open>encryptUint64(client, b)\<close>:
  it succeeds iff \<open>0 \<le> b \<le> 2 ^ 64 - 1\<close> (and the library accepts), and the only
  \<^verbatim>\<open>add*\<close> call it can make is \<^verbatim>\<open>add64(b)\<close>, also for values that a narrower width
  would hold.
\<close>

theorem encrypt_bigint_always_uint64:
  "encrypt c (JBigInt b) = encryptUint64 c b
   \<and> encrypt c (JBigInt b) =
       (if 0 \<le> b \<and> b \<le> 2 ^ 64 - 1 then encrypt_with c (Add64 b)
        else ([], Inl (Error ''Value must be between 0 and 2^64-1 for uint64'')))
   \<and> (returns (snd (encrypt c (JBigInt b)))
        \<longleftrightarrow> 0 \<le> b \<and> b \<le> 2 ^ 64 - 1 \<and> library_accepts c (Add64 b))
   \<and> (\<forall>a. AddCall a \<in> set (fst (encrypt c (JBigInt b))) \<longrightarrow> a = Add64 b)"
proof (intro conjI allI impI)
  show "encrypt c (JBigInt b) = encryptUint64 c b"
    by simp
  show "encrypt c (JBigInt b) =
       (if 0 \<le> b \<and> b \<le> 2 ^ 64 - 1 then encrypt_with c (Add64 b)
        else ([], Inl (Error ''Value must be between 0 and 2^64-1 for uint64'')))"
    by (simp only: encrypt.simps encryptUint64_int)
  show "returns (snd (encrypt c (JBigInt b)))
        \<longleftrightarrow> 0 \<le> b \<and> b \<le> 2 ^ 64 - 1 \<and> library_accepts c (Add64 b)"
    by (cases "0 \<le> b"; cases "b \<le> 2 ^ 64 - 1")
      (simp_all add: encryptUint64_int encrypt_with_returns)
next
  fix a
  assume "AddCall a \<in> set (fst (encrypt c (JBigInt b)))"
  then have "AddCall a \<in> set (fst (encrypt_with c (Add64 b)))"
    by (cases "0 \<le> b"; cases "b \<le> 2 ^ 64 - 1") (simp_all add: encryptUint64_int)
  moreover have "set (fst (encrypt_with c (Add64 b)))
       \<subseteq> {CreateEncryptedInput (aclAddress (network c)) (address c), AddCall (Add64 b), EncryptCall}"
    by (simp add: encrypt_with_calls)
  ultimately have "AddCall a \<in> {CreateEncryptedInput (aclAddress (network c)) (address c),
                      AddCall (Add64 b), EncryptCall}"
    by (rule set_mp [rotated])
  then show "a = Add64 b"
    by simp
qed

theorem encrypt_bigint_always_uint64_witness:
  "encrypt demo_client (JBigInt 5) =
     ([CreateEncryptedInput ''0x...'' (Some ''0xabc''), AddCall (Add64 5), EncryptCall],
      Inr \<lparr>data = [1], EncryptedInput.signature = ''proof''\<rparr>)
   \<and> AddCall (Add8 (Fin 5)) \<notin> set (fst (encrypt demo_client (JBigInt 5)))"
proof -
  note c10 = encrypt_bigint_always_uint64 [of demo_client 5]
  have "encrypt demo_client (JBigInt 5) = encrypt_with demo_client (Add64 5)"
    using c10 [THEN conjunct2, THEN conjunct1] by simp
  then have run: "encrypt demo_client (JBigInt 5) =
     ([CreateEncryptedInput ''0x...'' (Some ''0xabc''), AddCall (Add64 5), EncryptCall],
      Inr \<lparr>data = [1], EncryptedInput.signature = ''proof''\<rparr>)"
    by (simp only: demo_encrypt_with)
  have "AddCall (Add8 (Fin 5)) \<in> set (fst (encrypt demo_client (JBigInt 5)))
        \<Longrightarrow> Add8 (Fin 5) = Add64 5"
    using c10 [THEN conjunct2, THEN conjunct2, THEN conjunct2] by blast
  then have "AddCall (Add8 (Fin 5)) \<notin> set (fst (encrypt demo_client (JBigInt 5)))"
    by auto
  with run show ?thesis
    by (rule conjI)
qed

lemma smallest_width_cases:
  "smallest_width n =
     (if n \<le> 255 then Some 8 else if n \<le> 65535 then Some 16
      else if n \<le> 4294967295 then Some 32 else None)"
  by (simp add: smallest_width_def)

text \<open>
  Claim C5. \<^verbatim>\<open>encrypt\<close> takes the boolean path for every boolean; for every plain number
  \<open>n \<ge> 0\<close> it takes the path of the smallest of the widths 8, 16, 32 that holds \<open>n\<close>, and
  rejects \<open>n\<close> with no call to the library when none does (\<open>n > 2 ^ 32 - 1\<close>, and
  infinity): 250 goes to \<^verbatim>\<open>add8\<close>, 1000 to \<^verbatim>\<open>add16\<close>, \<open>2 ^ 32 - 1\<close> to \<^verbatim>\<open>add32\<close>.
\<close>

theorem encrypt_auto_detect_dispatch:
  "encrypt c (JBool b) = encrypt_with c (AddBool b)
   \<and> (0 \<le> n \<longrightarrow>
        encrypt c (JNumber (Fin n)) =
          (case smallest_width n of
             Some w \<Rightarrow> encrypt_with c (uint_path w (Fin n))
           | None \<Rightarrow> ([], Inl (Error ''Number value out of range for uint32, use bigint for uint64''))))
   \<and> encrypt c (JNumber (Fin 250)) = encrypt_with c (Add8 (Fin 250))
   \<and> encrypt c (JNumber (Fin 1000)) = encrypt_with c (Add16 (Fin 1000))
   \<and> encrypt c (JNumber (Fin (2 ^ 32 - 1))) = encrypt_with c (Add32 (Fin (2 ^ 32 - 1)))
   \<and> (2 ^ 32 - 1 < n \<longrightarrow>
        encrypt c (JNumber (Fin n)) =
          ([], Inl (Error ''Number value out of range for uint32, use bigint for uint64'')))
   \<and> encrypt c (JNumber PosInf) =
          ([], Inl (Error ''Number value out of range for uint32, use bigint for uint64''))"
  by (auto simp: smallest_width_cases uint_path_def encryptBool_def encryptUint8_def
      encryptUint16_def encryptUint32_def num_ge_def num_gt_def)

theorem encrypt_auto_detect_dispatch_witness:
  "fst (encrypt demo_client (JNumber (Fin 256))) =
     [CreateEncryptedInput ''0x...'' (Some ''0xabc''), AddCall (Add16 (Fin 256)), EncryptCall]
   \<and> encrypt demo_client (JNumber (Fin (2 ^ 32))) =
     ([], Inl (Error ''Number value out of range for uint32, use bigint for uint64''))"
  using encrypt_auto_detect_dispatch [of demo_client True 256]
    encrypt_auto_detect_dispatch [of demo_client True "2 ^ 32"]
  by (simp add: smallest_width_cases uint_path_def demo_encrypt_with)

section \<open>The address check of \<^verbatim>\<open>encryptAddress\<close>\<close>

text \<open>What the source checks: a call to the library is made exactly for the strings of
  length 42 that start with 0x.\<close>

lemma encryptAddress_calls_iff:
  "fst (encryptAddress c a) \<noteq> [] \<longleftrightarrow> startsWith a ''0x'' \<and> length a = 42"
  using encrypt_with_calls [of c "AddAddress a"]
  by (cases "startsWith a ''0x''"; cases "length a = 42") (simp_all add: encryptAddress_def)

text \<open>
  Claim C7. \<^verbatim>\<open>encryptAddress\<close> should reject every string that is not a 20-byte hex
  address before any call to the library. The source checks the prefix and the length
  only: the 42-character string below has no hex digit after its prefix, fails the
  address pattern of validation.ts and of the specification, and still reaches the
  library, whose answer is returned.
\<close>

theorem encryptAddress_accepts_non_hex:
  "\<not> address_regex ''0xzzzzzzzzzzzzzzzzzzzzzzzzzzzzzzzzzzzzzzzz''
   \<and> \<not> spec_address_pattern ''0xzzzzzzzzzzzzzzzzzzzzzzzzzzzzzzzzzzzzzzzz''
   \<and> encryptAddress demo_client ''0xzzzzzzzzzzzzzzzzzzzzzzzzzzzzzzzzzzzzzzzz'' =
       ([CreateEncryptedInput ''0x...'' (Some ''0xabc''),
         AddCall (AddAddress ''0xzzzzzzzzzzzzzzzzzzzzzzzzzzzzzzzzzzzzzzzz''), EncryptCall],
        Inr \<lparr>data = [1], EncryptedInput.signature = ''proof''\<rparr>)"
  by (simp add: address_regex_def spec_address_pattern_def is_hex_char_def encryptAddress_def
      startsWith_def demo_encrypt_with)

text \<open>In particular a call to the library is made for it, and the call succeeds.\<close>

theorem encryptAddress_accepts_non_hex_witness:
  "fst (encryptAddress demo_client ''0xzzzzzzzzzzzzzzzzzzzzzzzzzzzzzzzzzzzzzzzz'') \<noteq> []
   \<and> returns (snd (encryptAddress demo_client ''0xzzzzzzzzzzzzzzzzzzzzzzzzzzzzzzzzzzzzzzzz''))"
  using encryptAddress_accepts_non_hex by simp

section \<open>Batch decryption\<close>

lemma promise_all_Inr_iff: "promise_all rs = Inr vs \<longleftrightarrow> rs = map Inr vs"
proof (induction rs arbitrary: vs)
  case Nil
  show ?case by auto
next
  case (Cons r rs)
  show ?case
  proof (cases r)
    case (Inl e)
    then show ?thesis by (cases vs) auto
  next
    case (Inr v)
    show ?thesis
    proof (cases "promise_all rs")
      case (Inl e)
      with Inr Cons.IH show ?thesis by (cases vs) auto
    next
      case inner: (Inr ws)
      with Inr Cons.IH [of ws] show ?thesis by (cases vs) auto
    qed
  qed
qed

lemma promise_all_rejects_iff: "throws (promise_all rs) \<longleftrightarrow> (\<exists>r \<in> set rs. throws r)"
proof (induction rs)
  case Nil
  show ?case by simp
next
  case (Cons r rs)
  then show ?case
    by (cases r; cases "promise_all rs") auto
qed

lemma decrypt_requests: "length (fst (decrypt f c h p)) = 1"
  by (simp add: decrypt_def Let_def)

text \<open>
  Claim C8. \<^verbatim>\<open>decryptBatch\<close> rejects iff at least one of the per-handle decryptions
  rejects; it resolves with \<open>vs\<close> iff \<open>vs\<close> has the length of the handle list and its
  \<open>i\<close>-th element is the value the \<open>i\<close>-th handle decrypts to; when every per-handle
  decryption resolves, the batch resolves. One request per handle is issued, in the
  order of the handles, whatever the answers are.
\<close>

theorem decryptBatch_all_or_nothing:
  "(throws (snd (decryptBatch f c hs p)) \<longleftrightarrow> (\<exists>h \<in> set hs. throws (snd (decrypt f c h p))))
   \<and> (snd (decryptBatch f c hs p) = Inr vs
        \<longleftrightarrow> length vs = length hs \<and> (\<forall>i < length hs. snd (decrypt f c (hs ! i) p) = Inr (vs ! i)))
   \<and> ((\<forall>h \<in> set hs. returns (snd (decrypt f c h p)))
        \<longrightarrow> (\<exists>ws. snd (decryptBatch f c hs p) = Inr ws \<and> length ws = length hs))
   \<and> fst (decryptBatch f c hs p) = concat (map (\<lambda>h. fst (decrypt f c h p)) hs)"
proof (intro conjI)
  show "throws (snd (decryptBatch f c hs p)) \<longleftrightarrow> (\<exists>h \<in> set hs. throws (snd (decrypt f c h p)))"
    by (simp add: decryptBatch_def Let_def promise_all_rejects_iff)
  show "snd (decryptBatch f c hs p) = Inr vs
        \<longleftrightarrow> length vs = length hs \<and> (\<forall>i < length hs. snd (decrypt f c (hs ! i) p) = Inr (vs ! i))"
    by (auto simp: decryptBatch_def Let_def promise_all_Inr_iff list_eq_iff_nth_eq)
  show "(\<forall>h \<in> set hs. returns (snd (decrypt f c h p)))
        \<longrightarrow> (\<exists>ws. snd (decryptBatch f c hs p) = Inr ws \<and> length ws = length hs)"
  proof
    assume all: "\<forall>h \<in> set hs. returns (snd (decrypt f c h p))"
    have "\<forall>h \<in> set hs. \<not> throws (snd (decrypt f c h p))"
      using all by (simp add: returns_def throws_def)
    then have "\<not> throws (promise_all (map (\<lambda>h. snd (decrypt f c h p)) hs))"
      by (simp add: promise_all_rejects_iff)
    then obtain ws where ws: "promise_all (map (\<lambda>h. snd (decrypt f c h p)) hs) = Inr ws"
      by (cases "promise_all (map (\<lambda>h. snd (decrypt f c h p)) hs)") auto
    then have "map (\<lambda>h. snd (decrypt f c h p)) hs = map Inr ws"
      by (simp add: promise_all_Inr_iff)
    then have "length hs = length ws"
      by (metis length_map)
    with ws show "\<exists>ws. snd (decryptBatch f c hs p) = Inr ws \<and> length ws = length hs"
      by (simp add: decryptBatch_def Let_def comp_def)
  qed
  show "fst (decryptBatch f c hs p) = concat (map (\<lambda>h. fst (decrypt f c h p)) hs)"
    by (simp add: decryptBatch_def Let_def comp_def)
qed

lemma demo_decrypt_1: "snd (decrypt demo_gateway demo_client 1 demo_permit) = Inr 1"
  by code_simp

lemma demo_decrypt_2: "snd (decrypt demo_gateway demo_client 2 demo_permit) = Inr 2"
  by code_simp

lemma demo_decrypt_3: "snd (decrypt demo_gateway demo_client 3 demo_permit) = Inr 3"
  by code_simp

lemma demo_decrypt_13: "throws (snd (decrypt demo_gateway demo_client 13 demo_permit))"
  by code_simp

theorem decryptBatch_all_or_nothing_witness:
  "snd (decryptBatch demo_gateway demo_client [1, 2, 3] demo_permit) = Inr [1, 2, 3]
   \<and> throws (snd (decryptBatch demo_gateway demo_client [1, 13, 3] demo_permit))
   \<and> length (fst (decryptBatch demo_gateway demo_client [1, 13, 3] demo_permit)) = 3"
proof -
  have "\<forall>i < length [1, 2, 3 :: int].
          snd (decrypt demo_gateway demo_client ([1, 2, 3] ! i) demo_permit) = Inr ([1, 2, 3] ! i)"
    using demo_decrypt_1 demo_decrypt_2 demo_decrypt_3 by (auto simp: nth_Cons' less_Suc_eq numeral_3_eq_3)
  then have a: "snd (decryptBatch demo_gateway demo_client [1, 2, 3] demo_permit) = Inr [1, 2, 3]"
    using decryptBatch_all_or_nothing [of demo_gateway demo_client "[1, 2, 3]" demo_permit "[1, 2, 3]"]
    by simp
  have b: "throws (snd (decryptBatch demo_gateway demo_client [1, 13, 3] demo_permit))"
    using decryptBatch_all_or_nothing [of demo_gateway demo_client "[1, 13, 3]" demo_permit "[]"]
      demo_decrypt_13
    by simp
  have c: "length (fst (decryptBatch demo_gateway demo_client [1, 13, 3] demo_permit)) = 3"
    using decryptBatch_all_or_nothing [of demo_gateway demo_client "[1, 13, 3]" demo_permit "[]"]
    by (simp add: decrypt_def Let_def)
  from a b c show ?thesis by simp
qed

section \<open>Permits\<close>

text \<open>
  Claim C1, as stated: a permit whose \<^verbatim>\<open>expiresAt\<close> is in the past is rejected by
  \<^verbatim>\<open>isPermitValid\<close> with no request to the gateway. It fails: for the permit that expired
  at time 1000 (any later moment is "now": the source reads no clock), the request to
  \<^verbatim>\<open>/permit/validate\<close> is issued and, the gateway finding the permit valid, the answer is
  true.
\<close>

theorem isPermitValid_expired_counterexample:
  "expiresAt expired_permit = Some 1000
   \<and> isPermitValid demo_gateway demo_client expired_permit =
       ([json_post ''http://localhost:8080/permit/validate''
           [(''signature'', ''0xsig''), (''publicKey'', ''0xkey'')]], True)"
  by (simp add: expired_permit_def isPermitValid_def demo_gateway_def demo_client_def
      localhost_config_def json_post_def get_field_def)

text \<open>
  Claim C1, amended. \<^verbatim>\<open>isPermitValid\<close> makes no local expiry check: for every permit,
  whatever its \<^verbatim>\<open>expiresAt\<close>, it issues exactly one POST to \<^verbatim>\<open>/permit/validate\<close> with the
  permit's signature and public key, and answers what the gateway's answer decides: true
  iff the response is ok and its body has \<^verbatim>\<open>valid === true\<close>, false otherwise (also when
  the transport fails).
\<close>

theorem isPermitValid_always_asks_gateway:
  "fst (isPermitValid f c p) =
     [json_post (gatewayUrl (network c) @ ''/permit/validate'')
        [(''signature'', signature p), (''publicKey'', publicKey p)]]
   \<and> snd (isPermitValid f c p) =
       permit_valid_response
         (f (json_post (gatewayUrl (network c) @ ''/permit/validate'')
               [(''signature'', signature p), (''publicKey'', publicKey p)]))
   \<and> isPermitValid f c (p\<lparr>expiresAt := e\<rparr>) = isPermitValid f c p
   \<and> (permit_valid_response r \<longleftrightarrow>
        (\<exists>st fs. r = Response True st (JsonObject fs) \<and> get_field fs ''valid'' = JBool True))"
proof (intro conjI)
  show "permit_valid_response r \<longleftrightarrow>
        (\<exists>st fs. r = Response True st (JsonObject fs) \<and> get_field fs ''valid'' = JBool True)"
    by (cases r) (auto split: json_result.splits)
qed (simp_all add: isPermitValid_def Let_def)

text \<open>
  Claim C2, as stated: for a permit with an empty signature or public key, \<^verbatim>\<open>decrypt\<close>
  raises an error with no request to the gateway. It fails: for the permit with both
  fields empty, which \<^verbatim>\<open>validateDecryptionPermit\<close> rejects, \<^verbatim>\<open>decrypt\<close> issues the
  request to \<^verbatim>\<open>/decrypt\<close> and returns what the gateway answers.
\<close>

theorem decrypt_empty_permit_counterexample:
  "throws (validateDecryptionPermit (permit_as_any empty_permit))
   \<and> decrypt demo_gateway demo_client 7 empty_permit =
       ([json_post ''http://localhost:8080/decrypt''
           [(''handle'', ''7''), (''signature'', []), (''publicKey'', [])]], Inr 7)"
  by code_simp

text \<open>
  Claim C2, amended. \<^verbatim>\<open>decrypt\<close> makes no local check of the permit: for every permit
  it issues exactly one POST to \<^verbatim>\<open>/decrypt\<close> carrying the handle and the permit's
  signature and public key as they are, and it resolves iff the gateway's answer gives a
  value. The local check is the separate \<^verbatim>\<open>validateDecryptionPermit\<close>, which throws for
  a permit exactly when its signature or its public key is empty.
\<close>

theorem decrypt_always_asks_gateway:
  "fst (decrypt f c h p) =
     [json_post (gatewayUrl (network c) @ ''/decrypt'')
        [(''handle'', show_int h), (''signature'', signature p), (''publicKey'', publicKey p)]]
   \<and> (returns (snd (decrypt f c h p)) \<longleftrightarrow>
        returns (decrypt_response
          (f (json_post (gatewayUrl (network c) @ ''/decrypt'')
               [(''handle'', show_int h), (''signature'', signature p), (''publicKey'', publicKey p)]))))
   \<and> (throws (validateDecryptionPermit (permit_as_any p))
        \<longleftrightarrow> signature p = [] \<or> publicKey p = [])"
  by (auto simp: decrypt_def Let_def permit_as_any_def nonempty_string_def split: sum.splits)

section \<open>The validation layer\<close>

text \<open>
  Claim C3, as stated: every check of the validation layer returns success or a failure
  reason and never throws. It fails: the checks of validation.ts return nothing (or the
  converted value) and throw. A value out of range makes \<^verbatim>\<open>validateFheValue\<close> throw, and
  a missing or malformed handle makes \<^verbatim>\<open>validateEncryptedHandle\<close> throw.
\<close>

theorem validation_throws_counterexample:
  "validateFheValue (JNumber (Fin 256)) FUint8 =
     Inl (Error ''Value 256 out of range for uint8 (0 - 255)'')
   \<and> throws (validateFheValue (JNumber (Fin 256)) FUint8)
   \<and> validateEncryptedHandle JNull = Inl (Error ''Encrypted handle is required'')
   \<and> throws (validateEncryptedHandle JNull)
   \<and> validateEncryptedHandle (JString ''abc'') = Inl (Error ''Invalid encrypted handle format'')"
  by code_simp

lemma validateFheValue_bigint:
  assumes "FHE_RANGES t = Some (lo, hi)" "t \<noteq> FBool"
  shows "validateFheValue (JBigInt v) t =
     (if lo \<le> v \<and> v \<le> hi then Inr ()
      else Inl (Error (''Value '' @ show_int v @ '' out of range for '' @ type_name t @ '' (''
                       @ show_int lo @ '' - '' @ show_int hi @ '')'')))"
  using assms by (cases t) (auto simp: validateFheValue_def)

lemma validateFheValue_int_number:
  assumes "FHE_RANGES t = Some (lo, hi)" "t \<noteq> FBool"
  shows "validateFheValue (JNumber (Fin (of_int v))) t = validateFheValue (JBigInt v) t"
  using assms by (cases t) (auto simp: validateFheValue_def)

lemma validateEncryptedHandle_cases:
  "validateEncryptedHandle h =
     (if h = JNull \<or> h = JUndefined then Inl (Error ''Encrypted handle is required'')
      else if throws (BigInt h) then Inl (Error ''Invalid encrypted handle format'')
      else BigInt h)"
  by (cases "BigInt h") (auto simp: validateEncryptedHandle_def)

lemma validateEncryptedHandle_throws_iff:
  "throws (validateEncryptedHandle h) \<longleftrightarrow> throws (BigInt h)"
  by (cases h; cases "BigInt h") (auto simp: validateEncryptedHandle_def)

text \<open>
  Claim C3, amended. The checks of validation.ts signal a failure by throwing an Error
  whose message is the reason, and return normally otherwise. For a numeric type with
  range \<open>lo .. hi\<close>, \<^verbatim>\<open>validateFheValue\<close> returns for an integer \<open>v\<close> (bigint or number)
  iff \<open>lo \<le> v \<le> hi\<close> and otherwise throws the error that carries the value and the two
  bounds; for the boolean type it returns exactly for true, false, 0 and 1; for the
  address type exactly for the strings the address pattern matches.
  \<^verbatim>\<open>validateEncryptedHandle\<close> throws "required" for null and undefined, "invalid format"
  when the handle does not convert to a BigInt, and returns the converted handle
  otherwise. \<^verbatim>\<open>validateDecryptionPermit\<close> throws unless both fields are non-empty
  strings.
\<close>

theorem validation_checks_throw_on_failure:
  "(FHE_RANGES t = Some (lo, hi) \<and> t \<noteq> FBool \<longrightarrow>
      validateFheValue (JBigInt v) t =
        (if lo \<le> v \<and> v \<le> hi then Inr ()
         else Inl (Error (''Value '' @ show_int v @ '' out of range for '' @ type_name t
                          @ '' ('' @ show_int lo @ '' - '' @ show_int hi @ '')'')))
      \<and> validateFheValue (JNumber (Fin (of_int v))) t = validateFheValue (JBigInt v) t)
   \<and> validateFheValue x FBool =
        (if x \<in> {JBool True, JBool False, JNumber (Fin 0), JNumber (Fin 1)} then Inr ()
         else Inl (Error ''Boolean value must be true, false, 0, or 1''))
   \<and> validateFheValue x FAddress =
        (case x of
           JString s \<Rightarrow> if address_regex s then Inr ()
                        else Inl (Error ''Invalid Ethereum address format'')
         | _ \<Rightarrow> Inl (Error ''Address value must be a string''))
   \<and> validateEncryptedHandle h =
        (if h = JNull \<or> h = JUndefined then Inl (Error ''Encrypted handle is required'')
         else if throws (BigInt h) then Inl (Error ''Invalid encrypted handle format'')
         else BigInt h)
   \<and> (throws (validateEncryptedHandle h) \<longleftrightarrow> throws (BigInt h))
   \<and> (throws (validateDecryptionPermit (PermitFields sig pk))
        \<longleftrightarrow> \<not> (nonempty_string sig \<and> nonempty_string pk))"
proof (intro conjI impI)
  show "validateFheValue x FBool =
        (if x \<in> {JBool True, JBool False, JNumber (Fin 0), JNumber (Fin 1)} then Inr ()
         else Inl (Error ''Boolean value must be true, false, 0, or 1''))"
    by (cases x) (auto simp: validateFheValue_def)
  show "validateFheValue x FAddress =
        (case x of
           JString s \<Rightarrow> if address_regex s then Inr ()
                        else Inl (Error ''Invalid Ethereum address format'')
         | _ \<Rightarrow> Inl (Error ''Address value must be a string''))"
    by (cases x) (auto simp: validateFheValue_def)
qed (simp_all add: validateFheValue_bigint validateFheValue_int_number
       validateEncryptedHandle_cases [symmetric] validateEncryptedHandle_throws_iff)

theorem validation_checks_throw_on_failure_witness:
  "validateFheValue (JBigInt 255) FUint8 = Inr ()
   \<and> validateFheValue (JBigInt 256) FUint8
       = Inl (Error (''Value '' @ show_int 256 @ '' out of range for uint8 ('' @ show_int 0
                     @ '' - '' @ show_int 255 @ '')''))
   \<and> validateFheValue (JNumber (Fin 256)) FUint8 = validateFheValue (JBigInt 256) FUint8"
  using validation_checks_throw_on_failure [of FUint8 0 255 255]
    validation_checks_throw_on_failure [of FUint8 0 255 256]
  by simp

section \<open>The network registry\<close>

lemma apply_overrides_none:
  "\<not> truthy (cfg_gatewayUrl config) \<Longrightarrow> \<not> truthy (cfg_aclAddress config)
   \<Longrightarrow> apply_overrides config r s = s"
  by (auto simp: apply_overrides_def truthy_def split: option.splits)

lemma createFhevmClient_objects:
  "objects (fst (createFhevmClient ext config st)) = objects st
   \<or> (\<exists>r. (case cfg_network config of ByName n \<Rightarrow> NETWORKS n | Custom r \<Rightarrow> Some r) = Some r
          \<and> objects (fst (createFhevmClient ext config st)) = apply_overrides config r (objects st))"
  by (auto simp: createFhevmClient_def initializeFhevm_def Let_def
      split: sum.splits option.splits prod.splits network_choice.splits)

lemma createFhevmClient_without_overrides:
  "\<not> truthy (cfg_gatewayUrl config) \<Longrightarrow> \<not> truthy (cfg_aclAddress config)
   \<Longrightarrow> objects (fst (createFhevmClient ext config st)) = objects st"
  using createFhevmClient_objects [of ext config st] by (auto simp: apply_overrides_none)

lemma createFhevmClient_resolved:
  assumes "fhevmInitialized st \<or> initFhevm ext = Inr ()"
    and "cfg_network config = ByName name" and "NETWORKS name = Some r"
  shows "objects (fst (createFhevmClient ext config st)) = apply_overrides config r (objects st)"
  using assms
  by (auto simp: createFhevmClient_def initializeFhevm_def Let_def
      split: sum.splits option.splits prod.splits)

text \<open>
  Claim C4. Resolving a network by name and applying an override should leave the
  registry's entry as it was. The source assigns the override to a field of the resolved
  object, and for a name that object is the registry's own entry: whenever the library
  is (or gets) initialised and the name is registered, a gateway override that is a
  non-empty string is the gateway of the registry's entry for the name afterwards, and
  likewise an override of the ACL address, whatever the rest of \<^verbatim>\<open>createFhevmClient\<close>
  does.
\<close>

theorem createFhevmClient_override_changes_registry:
  assumes "fhevmInitialized st \<or> initFhevm ext = Inr ()"
    and "cfg_network config = ByName name" and "NETWORKS name = Some r"
  shows "(cfg_gatewayUrl config = Some g \<and> g \<noteq> [] \<longrightarrow>
           map_option gatewayUrl (registry_entry (fst (createFhevmClient ext config st)) name) = Some g)
       \<and> (cfg_aclAddress config = Some a \<and> a \<noteq> [] \<longrightarrow>
           map_option aclAddress (registry_entry (fst (createFhevmClient ext config st)) name) = Some a)"
proof -
  have gw: "cfg_gatewayUrl config = Some g \<and> g \<noteq> [] \<longrightarrow>
            gatewayUrl (apply_overrides config r (objects st) r) = g"
    by (auto simp: apply_overrides_def Let_def split: option.splits)
  have acl: "cfg_aclAddress config = Some a \<and> a \<noteq> [] \<longrightarrow>
            aclAddress (apply_overrides config r (objects st) r) = a"
    by (auto simp: apply_overrides_def Let_def split: option.splits)
  show ?thesis
    using gw acl createFhevmClient_resolved [OF assms] assms(3)
    by (simp add: registry_entry_def)
qed

theorem createFhevmClient_override_changes_registry_witness:
  "registry_entry fresh_state ''sepolia'' = Some sepolia_config
   \<and> gatewayUrl sepolia_config = ''https://gateway.zama.ai''
   \<and> map_option gatewayUrl
         (registry_entry (fst (createFhevmClient demo_externals override_config fresh_state)) ''sepolia'')
       = Some ''https://gateway.example''"
proof -
  have before: "registry_entry fresh_state ''sepolia'' = Some sepolia_config"
    by (simp add: registry_entry_def fresh_state_def NETWORKS_def initial_store_def
        sepolia_ref_def localhost_ref_def)
  have after: "map_option gatewayUrl
         (registry_entry (fst (createFhevmClient demo_externals override_config fresh_state)) ''sepolia'')
       = Some ''https://gateway.example''"
    using createFhevmClient_override_changes_registry
      [of fresh_state demo_externals override_config "''sepolia''" sepolia_ref
          "''https://gateway.example''"]
    by (simp add: demo_externals_def override_config_def NETWORKS_def)
  show ?thesis
    using before after by (simp add: sepolia_config_def)
qed

text \<open>A client created afterwards for the same name, with no override of its own, works
  with the gateway of the earlier client's override.\<close>

lemma second_client_inherits_override:
  "map_option (\<lambda>c. gatewayUrl (objects
        (fst (createFhevmClient demo_externals plain_config
               (fst (createFhevmClient demo_externals override_config fresh_state)))) (cr_network c)))
     (case snd (createFhevmClient demo_externals plain_config
               (fst (createFhevmClient demo_externals override_config fresh_state))) of
        Inl e \<Rightarrow> None | Inr c \<Rightarrow> Some c)
   = Some ''https://gateway.example''"
  by code_simp

section \<open>The rate limiter\<close>

lemma isAllowed_fields [simp]:
  "windowMs (snd (isAllowed u rl)) = windowMs rl"
  "maxRequests (snd (isAllowed u rl)) = maxRequests rl"
  by (simp_all add: isAllowed_def Let_def)

lemma isAllowed_calls_fields [simp]:
  "windowMs (snd (isAllowed_calls ts rl)) = windowMs rl"
  "maxRequests (snd (isAllowed_calls ts rl)) = maxRequests rl"
  by (induction ts arbitrary: rl) (simp_all split: prod.splits, (metis isAllowed_fields snd_conv)+)

lemma isAllowed_keeps_recent:
  assumes "u \<le> t"
  shows "filter (\<lambda>x. t - x < windowMs rl) (requests (snd (isAllowed u rl))) =
         filter (\<lambda>x. t - x < windowMs rl) (requests rl)
           @ (if fst (isAllowed u rl) \<and> t - u < windowMs rl then [u] else [])"
proof -
  have "\<And>x. t - x < windowMs rl \<Longrightarrow> u - x < windowMs rl"
    using assms by linarith
  then have "filter (\<lambda>x. t - x < windowMs rl) (filter (\<lambda>x. u - x < windowMs rl) (requests rl))
        = filter (\<lambda>x. t - x < windowMs rl) (requests rl)"
    by (auto intro: filter_cong)
  then show ?thesis
    by (simp add: isAllowed_def Let_def)
qed

lemma isAllowed_calls_count:
  assumes "\<forall>u \<in> set ts. u \<le> t \<and> t - u < windowMs rl"
  shows "length (filter (\<lambda>x. t - x < windowMs rl) (requests (snd (isAllowed_calls ts rl))))
         = length (filter (\<lambda>x. t - x < windowMs rl) (requests rl))
           + length (filter (\<lambda>ok. ok) (fst (isAllowed_calls ts rl)))"
  using assms
proof (induction ts arbitrary: rl)
  case Nil
  show ?case by simp
next
  case (Cons u ts)
  obtain ok rl' where step: "isAllowed u rl = (ok, rl')"
    by (cases "isAllowed u rl")
  then have w: "windowMs rl' = windowMs rl"
    by (metis isAllowed_fields(1) snd_conv)
  have u: "u \<le> t" "t - u < windowMs rl"
    using Cons.prems by auto
  have one: "length (filter (\<lambda>x. t - x < windowMs rl) (requests rl'))
             = length (filter (\<lambda>x. t - x < windowMs rl) (requests rl)) + (if ok then 1 else 0)"
    using isAllowed_keeps_recent [OF u(1), of rl] u(2) step by simp
  have rest: "length (filter (\<lambda>x. t - x < windowMs rl') (requests (snd (isAllowed_calls ts rl'))))
         = length (filter (\<lambda>x. t - x < windowMs rl') (requests rl'))
           + length (filter (\<lambda>ok. ok) (fst (isAllowed_calls ts rl')))"
    by (rule Cons.IH) (use Cons.prems w in auto)
  obtain oks rl'' where tail: "isAllowed_calls ts rl' = (oks, rl'')"
    by (cases "isAllowed_calls ts rl'")
  show ?case
    using one rest step w tail by simp
qed

lemma isAllowed_full_window:
  assumes "maxRequests rl \<le> int (length (filter (\<lambda>x. t - x < windowMs rl) (requests rl)))"
  shows "isAllowed t rl = (False, rl\<lparr>requests := filter (\<lambda>x. t - x < windowMs rl) (requests rl)\<rparr>)"
  using assms by (simp add: isAllowed_def Let_def)

lemma isAllowed_rejects_after_accepted:
  assumes "\<forall>u \<in> set ts. u \<le> t \<and> t - u < windowMs rl"
    and "fst (isAllowed_calls ts rl) = replicate (length ts) True"
    and "maxRequests rl \<le> int (length ts)"
  shows "fst (isAllowed t (snd (isAllowed_calls ts rl))) = False"
proof -
  have "length (filter (\<lambda>ok. ok) (fst (isAllowed_calls ts rl))) = length ts"
    using assms(2) by simp
  then have "int (length ts)
        \<le> int (length (filter (\<lambda>x. t - x < windowMs rl) (requests (snd (isAllowed_calls ts rl)))))"
    using isAllowed_calls_count [OF assms(1)] by simp
  with assms(3) show ?thesis
    using isAllowed_full_window [of "snd (isAllowed_calls ts rl)" t] by simp
qed

lemma isAllowed_in_window:
  assumes "\<forall>x \<in> set (requests rl). u - x < windowMs rl"
  shows "isAllowed u rl =
           (if int (length (requests rl)) < maxRequests rl
            then (True, rl\<lparr>requests := requests rl @ [u]\<rparr>) else (False, rl))"
proof -
  have "filter (\<lambda>time. u - time < windowMs rl) (requests rl) = requests rl"
    using assms by (simp add: filter_id_conv)
  then show ?thesis by (simp add: isAllowed_def)
qed

lemma isAllowed_calls_fresh:
  assumes "int (length done) + int (length ts) \<le> maxRequests rl"
    and "requests rl = done"
    and "\<forall>u \<in> set (done @ ts). \<forall>x \<in> set (done @ ts). u - x < windowMs rl"
  shows "isAllowed_calls ts rl = (replicate (length ts) True, rl\<lparr>requests := done @ ts\<rparr>)"
  using assms
proof (induction ts arbitrary: rl "done")
  case Nil
  then show ?case by simp
next
  case (Cons u ts)
  have step: "isAllowed u rl = (True, rl\<lparr>requests := done @ [u]\<rparr>)"
    using Cons.prems by (simp add: isAllowed_in_window)
  have "isAllowed_calls ts (rl\<lparr>requests := done @ [u]\<rparr>)
        = (replicate (length ts) True, (rl\<lparr>requests := done @ [u]\<rparr>)\<lparr>requests := (done @ [u]) @ ts\<rparr>)"
    by (rule Cons.IH) (use Cons.prems in auto)
  with step show ?case by simp
qed

lemma isAllowed_after_window:
  assumes "\<forall>x \<in> set (requests rl). windowMs rl \<le> now - x"
  shows "isAllowed now rl =
           (if 0 < maxRequests rl then (True, rl\<lparr>requests := [now]\<rparr>)
            else (False, rl\<lparr>requests := []\<rparr>))"
proof -
  have "filter (\<lambda>time. now - time < windowMs rl) (requests rl) = []"
    using assms by (auto simp: filter_empty_conv)
  then show ?thesis by (simp add: isAllowed_def)
qed

text \<open>
  Claim C9, as stated for every maximum \<open>M\<close>. It fails for \<open>M = 0\<close>: no request was
  accepted, the first call is refused as the claim says, but a call made after the window
  of 1000 ms has passed is refused as well.
\<close>

theorem rate_limiter_zero_counterexample:
  "isAllowed_calls [] (new_RateLimiter 0 1000) = ([], new_RateLimiter 0 1000)
   \<and> fst (isAllowed 0 (new_RateLimiter 0 1000)) = False
   \<and> fst (isAllowed 5000 (snd (isAllowed 0 (new_RateLimiter 0 1000)))) = False"
  by (simp add: isAllowed_def new_RateLimiter_def)

text \<open>
  Claim C9, amended: for a maximum \<open>M \<ge> 1\<close>. A limiter constructed with maximum \<open>M\<close>
  and window \<open>W\<close> accepts \<open>M\<close> calls made at times \<open>ts\<close> and records exactly these times;
  a further call at a time \<open>t\<close> that has all of them within its window (\<open>u \<le> t\<close> and
  \<open>t - u < W\<close>) answers false and leaves the recorded times as they are; a call at a
  time \<open>t'\<close> with \<open>W\<close> elapsed since each of them answers true.
\<close>

theorem rate_limiter_window:
  assumes M: "M = int (length ts)" and pos: "1 \<le> M"
    and window: "\<forall>u \<in> set ts. u \<le> t \<and> t - u < W"
    and elapsed: "\<forall>u \<in> set ts. W \<le> t' - u"
  shows "isAllowed_calls ts (new_RateLimiter M W)
           = (replicate (length ts) True, \<lparr>requests = ts, maxRequests = M, windowMs = W\<rparr>)
         \<and> isAllowed t \<lparr>requests = ts, maxRequests = M, windowMs = W\<rparr>
           = (False, \<lparr>requests = ts, maxRequests = M, windowMs = W\<rparr>)
         \<and> fst (isAllowed t' \<lparr>requests = ts, maxRequests = M, windowMs = W\<rparr>) = True"
proof (intro conjI)
  have within: "\<forall>u \<in> set ts. \<forall>x \<in> set ts. u - x < W"
  proof (intro ballI)
    fix u x assume "u \<in> set ts" "x \<in> set ts"
    with window have "u \<le> t" "t - x < W" by auto
    then show "u - x < W" by linarith
  qed
  show "isAllowed_calls ts (new_RateLimiter M W)
           = (replicate (length ts) True, \<lparr>requests = ts, maxRequests = M, windowMs = W\<rparr>)"
    using isAllowed_calls_fresh [of "[]" ts "new_RateLimiter M W"] M within
    by (simp add: new_RateLimiter_def)
  show "isAllowed t \<lparr>requests = ts, maxRequests = M, windowMs = W\<rparr>
           = (False, \<lparr>requests = ts, maxRequests = M, windowMs = W\<rparr>)"
    using isAllowed_in_window [of "\<lparr>requests = ts, maxRequests = M, windowMs = W\<rparr>" t] M window
    by simp
  show "fst (isAllowed t' \<lparr>requests = ts, maxRequests = M, windowMs = W\<rparr>) = True"
    using isAllowed_after_window [of "\<lparr>requests = ts, maxRequests = M, windowMs = W\<rparr>" t'] pos elapsed
    by simp
qed

theorem rate_limiter_window_witness:
  "isAllowed_calls [100, 200] (new_RateLimiter 2 1000)
     = ([True, True], \<lparr>requests = [100, 200], maxRequests = 2, windowMs = 1000\<rparr>)
   \<and> isAllowed 1099 \<lparr>requests = [100, 200], maxRequests = 2, windowMs = 1000\<rparr>
     = (False, \<lparr>requests = [100, 200], maxRequests = 2, windowMs = 1000\<rparr>)
   \<and> fst (isAllowed 1200 \<lparr>requests = [100, 200], maxRequests = 2, windowMs = 1000\<rparr>) = True"
  using rate_limiter_window [of 2 "[100, 200]" 1099 1000 1200]
  by (simp add: numeral_2_eq_2)

end
